theory Spec2Isabelle
  imports Complex_Main "HOL-Library.AList"
begin

section \<open>The sequence analyzer of Echo Chamber\<close>

text \<open>
  This theory embeds the class \<open>SequenceAnalyzer\<close> (validation, the four pattern
  detectors, the predictors, the cache, the metrics, the history and the comparator).

  Numbers. A JavaScript number is a double. The finite ones are idealised here as
  rationals (\<^typ>\<open>rat\<close>) with exact arithmetic; \<open>NaN\<close> and the two infinities are
  values of their own, so that validation can reject them. Rounding error of the
  floating-point operations is therefore not part of this model.

  Values. The argument of \<open>analyze\<close> is \<open>undefined\<close>, \<open>null\<close>, a boolean, a number,
  a string, or an array or plain object of such values. Values on which
  \<open>JSON.stringify\<close> raises (a \<open>BigInt\<close>, a cyclic structure) and objects with a
  serialisation of their own (\<open>toJSON\<close>, wrapper objects) are not part of this type.

  Results are values: what a caller does later to an array it passed or to an object it
  got back is outside the model.
\<close>

subsection \<open>Values and cache keys\<close>

datatype jsval =
    JUndefined
  | JNull
  | JBool bool
  | JNum rat
  | JNaN
  | JInfinity
  | JNegInfinity
  | JStr string
  | JArr "jsval list"
  | JObj "(string \<times> jsval) list"

text \<open>
  The cache key is \<open>JSON.stringify(sequence)\<close>. The JSON text is represented by its
  syntax tree, which determines the text and is determined by it. At the top level
  \<open>undefined\<close> has no JSON text: the key is then the value \<open>undefined\<close> itself
  (\<open>None\<close>). Inside an array \<open>undefined\<close>, \<open>NaN\<close> and the infinities print as
  \<open>null\<close>; a property of an object whose value is \<open>undefined\<close> is left out.
\<close>

datatype json =
    JsonNull
  | JsonBool bool
  | JsonNum rat
  | JsonStr string
  | JsonArr "json list"
  | JsonObj "(string \<times> json) list"

fun stringify :: "jsval \<Rightarrow> json option" where
  "stringify JUndefined = None"
| "stringify JNull = Some JsonNull"
| "stringify (JBool b) = Some (JsonBool b)"
| "stringify (JNum q) = Some (JsonNum q)"
| "stringify JNaN = Some JsonNull"
| "stringify JInfinity = Some JsonNull"
| "stringify JNegInfinity = Some JsonNull"
| "stringify (JStr s) = Some (JsonStr s)"
| "stringify (JArr vs) =
     Some (JsonArr (map (\<lambda>v. case stringify v of None \<Rightarrow> JsonNull | Some j \<Rightarrow> j) vs))"
| "stringify (JObj kvs) =
     Some (JsonObj (concat (map (\<lambda>kv. case stringify (snd kv) of
                                          None \<Rightarrow> []
                                        | Some j \<Rightarrow> [(fst kv, j)]) kvs)))"

subsection \<open>Validation\<close>

text \<open>
  \<open>validateSequence\<close> returns \<open>{isValid: true}\<close> or \<open>{isValid: false, error: msg}\<close>.
  The three messages of the source start with a cross-mark symbol, which is left out of
  the strings below.
\<close>

datatype validation = Valid | Invalid string

definition msg_not_array :: string where
  "msg_not_array = ''The echo is not a valid sequence array.''"

definition msg_too_faint :: string where
  "msg_too_faint = ''The echo is too faint - need at least 2 numbers.''"

definition msg_distorted :: string where
  "msg_distorted = ''The echo is distorted - all elements must be valid numbers.''"

fun isArray :: "jsval \<Rightarrow> bool" where
  "isArray (JArr vs) = True"
| "isArray v = False"

fun typeof_number :: "jsval \<Rightarrow> bool" where
  "typeof_number (JNum q) = True"
| "typeof_number JNaN = True"
| "typeof_number JInfinity = True"
| "typeof_number JNegInfinity = True"
| "typeof_number v = False"

text \<open>\<open>isNaN\<close> and \<open>isFinite\<close> are only reached for values of type number.\<close>

fun isNaN :: "jsval \<Rightarrow> bool" where
  "isNaN JNaN = True"
| "isNaN v = False"

fun isFinite :: "jsval \<Rightarrow> bool" where
  "isFinite (JNum q) = True"
| "isFinite v = False"

fun items :: "jsval \<Rightarrow> jsval list" where
  "items (JArr vs) = vs"
| "items v = []"

definition validateSequence :: "jsval \<Rightarrow> validation" where
  "validateSequence seq =
     (if \<not> isArray seq then Invalid msg_not_array
      else if length (items seq) < 2 then Invalid msg_too_faint
      else if \<not> list_all (\<lambda>num. typeof_number num \<and> \<not> isNaN num \<and> isFinite num)
                          (items seq)
        then Invalid msg_distorted
      else Valid)"

text \<open>
  After validation the sequence is an array of finite numbers; the detectors and
  predictors work on the list of these numbers.
\<close>

fun number_of :: "jsval \<Rightarrow> rat" where
  "number_of (JNum q) = q"
| "number_of v = 0"

definition numbers :: "jsval \<Rightarrow> rat list" where
  "numbers seq = map number_of (items seq)"

subsection \<open>Detection results\<close>

text \<open>
  The texts built from template literals are kept as terms: \<open>ArithmeticFormula d\<close> is
  \<open>a_n = a_1 + (n-1)d, where d = ${d}\<close>, \<open>GeometricFormula r\<close> is
  \<open>a_n = a_1 * r^(n-1), where r = ${r.toFixed(4)}\<close>, \<open>PolynomialFormula k\<close> is
  \<open>Polynomial of degree ${k}\<close>, \<open>FibonacciFormula\<close> is \<open>a_n = a_(n-1) + a_(n-2)\<close> and
  \<open>NotRecognized\<close> is \<open>Pattern not recognized\<close>; likewise for the explanations.
\<close>

datatype formula =
    ArithmeticFormula rat
  | GeometricFormula rat
  | PolynomialFormula nat
  | FibonacciFormula
  | NotRecognized

datatype explanation =
    ArithmeticExplanation
  | GeometricExplanation
  | PolynomialExplanation nat
  | FibonacciExplanation

text \<open>
  A detector returns an object with a pattern name, or \<open>{pattern: null}\<close>, which is
  \<open>None\<close> below. A property that an object does not have is \<open>None\<close>; in
  \<open>nextNumbers\<close> the entry \<open>None\<close> is \<open>null\<close>.
\<close>

record detection =
  pattern :: string
  confidence :: nat
  commonDifference :: "rat option"
  commonRatio :: "rat option"
  degree :: "nat option"
  constantDifference :: "rat option"
  nextNumbers :: "rat option list"
  formula :: formula
  explanation :: "explanation option"

datatype exn = TypeError

subsection \<open>Differences\<close>

text \<open>
  The private helpers are called by \<open>analyze\<close> on validated sequences only (at least
  two finite numbers), and are modelled on these: \<open>hd\<close> and \<open>last\<close> stand for reads
  that are in range there.
\<close>

fun calculateDifferences :: "rat list \<Rightarrow> rat list" where
  "calculateDifferences (x # y # ys) = (y - x) # calculateDifferences (y # ys)"
| "calculateDifferences xs = []"

text \<open>\<open>ds.every(d => d === ds[0])\<close>, which holds of the empty array.\<close>

definition every_equals_first :: "rat list \<Rightarrow> bool" where
  "every_equals_first ds = list_all (\<lambda>d. d = hd ds) ds"

subsection \<open>Arithmetic progressions\<close>

fun predictArithmetic_loop :: "nat \<Rightarrow> rat \<Rightarrow> rat \<Rightarrow> rat list" where
  "predictArithmetic_loop 0 difference lst = []"
| "predictArithmetic_loop (Suc n) difference lst =
     (lst + difference) # predictArithmetic_loop n difference (lst + difference)"

definition predictArithmetic :: "rat list \<Rightarrow> nat \<Rightarrow> rat list" where
  "predictArithmetic seq count =
     (let differences = calculateDifferences seq;
          difference = hd differences
      in predictArithmetic_loop count difference (last seq))"

definition detectArithmetic :: "rat list \<Rightarrow> detection option" where
  "detectArithmetic seq =
     (let differences = calculateDifferences seq
      in if every_equals_first differences
         then Some \<lparr> pattern = ''arithmetic'',
                     confidence = 100,
                     commonDifference = Some (hd differences),
                     commonRatio = None,
                     degree = None,
                     constantDifference = None,
                     nextNumbers = map Some (predictArithmetic seq 5),
                     formula = ArithmeticFormula (hd differences),
                     explanation = Some ArithmeticExplanation \<rparr>
         else None)"

subsection \<open>Geometric progressions\<close>

fun ratios_loop :: "rat list \<Rightarrow> rat list" where
  "ratios_loop (x # y # ys) = (y / x) # ratios_loop (y # ys)"
| "ratios_loop xs = []"

text \<open>\<open>Math.round\<close> rounds to the nearest integer, a half upwards.\<close>

definition math_round :: "rat \<Rightarrow> rat" where
  "math_round x = of_int \<lfloor>x + 1 / 2\<rfloor>"

fun predictGeometric_loop :: "nat \<Rightarrow> rat \<Rightarrow> rat \<Rightarrow> rat list" where
  "predictGeometric_loop 0 ratio lst = []"
| "predictGeometric_loop (Suc n) ratio lst =
     (math_round (lst * ratio * 10000) / 10000) # predictGeometric_loop n ratio (lst * ratio)"

definition predictGeometric :: "rat list \<Rightarrow> nat \<Rightarrow> rat list" where
  "predictGeometric seq count =
     (let ratio = seq ! (length seq - 1) / seq ! (length seq - 2)
      in predictGeometric_loop count ratio (seq ! (length seq - 1)))"

definition tolerance :: rat where
  "tolerance = 1 / 10000"

definition detectGeometric :: "rat list \<Rightarrow> detection option" where
  "detectGeometric seq =
     (if list_ex (\<lambda>n. n = 0) seq then None
      else
        let ratios = ratios_loop seq;
            firstRatio = hd ratios;
            isGeometric = list_all (\<lambda>r. \<bar>r - firstRatio\<bar> < tolerance) ratios
        in if isGeometric
           then Some \<lparr> pattern = ''geometric'',
                       confidence = 100,
                       commonDifference = None,
                       commonRatio = Some firstRatio,
                       degree = None,
                       constantDifference = None,
                       nextNumbers = map Some (predictGeometric seq 5),
                       formula = GeometricFormula firstRatio,
                       explanation = Some GeometricExplanation \<rparr>
           else None)"

subsection \<open>Fibonacci-like sequences\<close>

text \<open>
  The loop counts the matches from index 2 on and stops at the first mismatch; the
  result is \<open>matchCount\<close>.
\<close>

fun detectFibonacci_loop :: "rat list \<Rightarrow> nat" where
  "detectFibonacci_loop (a # b # c # rest) =
     (if \<bar>c - (b + a)\<bar> < 1 / 10000 then Suc (detectFibonacci_loop (b # c # rest)) else 0)"
| "detectFibonacci_loop xs = 0"

fun predictFibonacci_loop :: "nat \<Rightarrow> rat \<Rightarrow> rat \<Rightarrow> rat list" where
  "predictFibonacci_loop 0 a b = []"
| "predictFibonacci_loop (Suc n) a b = (a + b) # predictFibonacci_loop n b (a + b)"

definition predictFibonacci :: "rat list \<Rightarrow> nat \<Rightarrow> rat list" where
  "predictFibonacci seq count =
     predictFibonacci_loop count (seq ! (length seq - 2)) (seq ! (length seq - 1))"

definition detectFibonacci :: "rat list \<Rightarrow> detection option" where
  "detectFibonacci seq =
     (if length seq < 3 then None
      else
        let matchCount = detectFibonacci_loop seq
        in if matchCount \<ge> length seq - 2
           then Some \<lparr> pattern = ''fibonacci'',
                       confidence = 100,
                       commonDifference = None,
                       commonRatio = None,
                       degree = None,
                       constantDifference = None,
                       nextNumbers = map Some (predictFibonacci seq 5),
                       formula = FibonacciFormula,
                       explanation = Some FibonacciExplanation \<rparr>
           else None)"

subsection \<open>Polynomial sequences\<close>

text \<open>
  \<open>predictPolynomial\<close> builds the table of differences: row 0 is a copy of the
  sequence, and rows are added for \<open>i = 0, ..., level\<close> until a row of differences
  is empty.
\<close>

fun buildTable :: "nat \<Rightarrow> rat list list \<Rightarrow> rat list list" where
  "buildTable 0 diffTable = diffTable"
| "buildTable (Suc n) diffTable =
     (let diffs = calculateDifferences (last diffTable)
      in if length diffs = 0 then diffTable else buildTable n (diffTable @ [diffs]))"

text \<open>
  Each prediction first extends row \<open>level\<close>. When the table has no such row,
  \<open>diffTable[level]\<close> is \<open>undefined\<close> and the call of \<open>push\<close> on it raises a
  \<open>TypeError\<close>.
\<close>

definition extendRow :: "nat \<Rightarrow> rat \<Rightarrow> rat list list \<Rightarrow> exn + rat list list" where
  "extendRow level constantDiff diffTable =
     (if level < length diffTable \<and> length (diffTable ! level) > 0
      then Inr (diffTable[level := diffTable ! level @ [last (diffTable ! level)]])
      else if level < length diffTable
      then Inr (diffTable[level := diffTable ! level @ [constantDiff]])
      else Inl TypeError)"

text \<open>The loop \<open>for (i = level - 1; i >= 0; i--)\<close>; \<open>workBackUp (Suc i)\<close> handles row \<open>i\<close>.\<close>

fun workBackUp :: "nat \<Rightarrow> rat list list \<Rightarrow> rat list list" where
  "workBackUp 0 diffTable = diffTable"
| "workBackUp (Suc i) diffTable =
     (let prevLast = last (diffTable ! i);
          diffLast = last (diffTable ! (i + 1))
      in workBackUp i (diffTable[i := diffTable ! i @ [prevLast + diffLast]]))"

fun predictPolynomial_loop :: "nat \<Rightarrow> nat \<Rightarrow> rat \<Rightarrow> rat list list \<Rightarrow> exn + rat list" where
  "predictPolynomial_loop 0 level constantDiff diffTable = Inr []"
| "predictPolynomial_loop (Suc n) level constantDiff diffTable =
     (case extendRow level constantDiff diffTable of
        Inl e \<Rightarrow> Inl e
      | Inr extended \<Rightarrow>
          let diffTable' = workBackUp level extended;
              nextNum = last (diffTable' ! 0)
          in (case predictPolynomial_loop n level constantDiff diffTable' of
                Inl e \<Rightarrow> Inl e
              | Inr predictions \<Rightarrow> Inr (nextNum # predictions)))"

definition predictPolynomial :: "rat list \<Rightarrow> nat \<Rightarrow> rat \<Rightarrow> nat \<Rightarrow> exn + rat list" where
  "predictPolynomial seq level constantDiff count =
     predictPolynomial_loop count level constantDiff (buildTable (level + 1) [seq])"

definition maxLevels :: nat where
  "maxLevels = 5"

function detectPolynomial_loop :: "rat list \<Rightarrow> rat list \<Rightarrow> nat \<Rightarrow> exn + detection option" where
  "detectPolynomial_loop seq differences level =
     (if level < maxLevels then
        let nextDiffs = calculateDifferences differences
        in if length nextDiffs = 0 then Inr None
           else if every_equals_first nextDiffs then
             (case predictPolynomial seq level (hd nextDiffs) 5 of
                Inl e \<Rightarrow> Inl e
              | Inr predictions \<Rightarrow>
                  Inr (Some \<lparr> pattern = ''polynomial'',
                              confidence = 95,
                              commonDifference = None,
                              commonRatio = None,
                              degree = Some (level + 1),
                              constantDifference = Some (hd nextDiffs),
                              nextNumbers = map Some predictions,
                              formula = PolynomialFormula (level + 1),
                              explanation = Some (PolynomialExplanation (level + 1)) \<rparr>))
           else detectPolynomial_loop seq nextDiffs (level + 1)
      else Inr None)"
  by pat_completeness auto
termination
  by (relation "measure (\<lambda>(seq, differences, level). maxLevels - level)") auto

declare detectPolynomial_loop.simps [simp del]

definition detectPolynomial :: "rat list \<Rightarrow> exn + detection option" where
  "detectPolynomial seq = detectPolynomial_loop seq seq 0"

subsection \<open>The analyzer\<close>

text \<open>
  An analysis result. \<open>detected\<close> holds the properties copied from the detection by
  the spread \<open>...result\<close>; a failed validation returns an object with \<open>success\<close>,
  \<open>error\<close> and \<open>sequence\<close> only.
\<close>

record analysis =
  success :: bool
  error :: "string option"
  sequence :: jsval
  sequenceLength :: "nat option"
  detected :: "detection option"
  analysisTime :: "rat option"
  timestamp :: "string option"

record metrics =
  totalAnalyses :: nat
  averageAnalysisTime :: rat
  cacheHits :: nat

record metrics_snapshot = metrics +
  cacheSize :: nat

text \<open>
  The cache is a \<open>Map\<close> from keys to results, kept as an association list in
  insertion order.
\<close>

record analyzer =
  history :: "analysis list"
  performanceMetrics :: metrics
  analysisCache :: "(json option \<times> analysis) list"

definition new_analyzer :: analyzer where
  "new_analyzer =
     \<lparr> history = [],
       performanceMetrics = \<lparr> totalAnalyses = 0, averageAnalysisTime = 0, cacheHits = 0 \<rparr>,
       analysisCache = [] \<rparr>"

text \<open>
  What a call of \<open>analyze\<close> reads from its environment: the two readings of
  \<open>performance.now()\<close> and the text of \<open>new Date().toISOString()\<close>.
\<close>

record clock =
  startTime :: rat
  endTime :: rat
  isoString :: string

definition updateMetrics :: "rat \<Rightarrow> analyzer \<Rightarrow> analyzer" where
  "updateMetrics time this =
     (let m = performanceMetrics this;
          total = totalAnalyses m + 1;
          prevAvg = averageAnalysisTime m
      in this \<lparr> performanceMetrics :=
                  m \<lparr> totalAnalyses := total,
                      averageAnalysisTime :=
                        (prevAvg * (of_nat total - 1) + time) / of_nat total \<rparr> \<rparr>)"

text \<open>The detectors in their order; without a match the pattern is \<open>unknown\<close>.\<close>

definition unknown_pattern :: detection where
  "unknown_pattern =
     \<lparr> pattern = ''unknown'',
       confidence = 0,
       commonDifference = None,
       commonRatio = None,
       degree = None,
       constantDifference = None,
       nextNumbers = [None],
       formula = NotRecognized,
       explanation = None \<rparr>"

definition detect :: "rat list \<Rightarrow> exn + detection" where
  "detect seq =
     (case detectArithmetic seq of
        Some result \<Rightarrow> Inr result
      | None \<Rightarrow>
     (case detectGeometric seq of
        Some result \<Rightarrow> Inr result
      | None \<Rightarrow>
     (case detectFibonacci seq of
        Some result \<Rightarrow> Inr result
      | None \<Rightarrow>
     (case detectPolynomial seq of
        Inl e \<Rightarrow> Inl e
      | Inr (Some result) \<Rightarrow> Inr result
      | Inr None \<Rightarrow> Inr unknown_pattern))))"

text \<open>
  \<open>analyze\<close> returns the result, or the exception that escapes, and the analyzer
  after the call.
\<close>

definition analyze :: "clock \<Rightarrow> jsval \<Rightarrow> analyzer \<Rightarrow> (exn + analysis) \<times> analyzer" where
  "analyze clk seq this =
     (let cacheKey = stringify seq
      in case map_of (analysisCache this) cacheKey of
           Some cached \<Rightarrow>
             (Inr cached,
              this \<lparr> performanceMetrics :=
                       (performanceMetrics this)
                         \<lparr> cacheHits := cacheHits (performanceMetrics this) + 1 \<rparr> \<rparr>)
         | None \<Rightarrow>
            (case validateSequence seq of
               Invalid msg \<Rightarrow>
                 (Inr \<lparr> success = False, error = Some msg, sequence = seq,
                        sequenceLength = None, detected = None,
                        analysisTime = None, timestamp = None \<rparr>,
                  this)
             | Valid \<Rightarrow>
                (case detect (numbers seq) of
                   Inl e \<Rightarrow> (Inl e, this)
                 | Inr result \<Rightarrow>
                     let time = endTime clk - startTime clk;
                         analysisResult =
                           \<lparr> success = True, error = None, sequence = seq,
                             sequenceLength = Some (length (items seq)),
                             detected = Some result,
                             analysisTime = Some time,
                             timestamp = Some (isoString clk) \<rparr>;
                         this1 = updateMetrics time this;
                         this2 = this1 \<lparr> analysisCache :=
                                   AList.update cacheKey analysisResult (analysisCache this1) \<rparr>;
                         this3 = this2 \<lparr> history := history this2 @ [analysisResult] \<rparr>
                     in (Inr analysisResult, this3))))"

definition getHistory :: "analyzer \<Rightarrow> analysis list" where
  "getHistory this = history this"

definition getMetrics :: "analyzer \<Rightarrow> metrics_snapshot" where
  "getMetrics this =
     metrics.extend (performanceMetrics this) \<lparr> cacheSize = length (analysisCache this) \<rparr>"

definition clear :: "analyzer \<Rightarrow> analyzer" where
  "clear this =
     this \<lparr> history := [],
            analysisCache := [],
            performanceMetrics :=
              \<lparr> totalAnalyses = 0, averageAnalysisTime = 0, cacheHits = 0 \<rparr> \<rparr>"

subsection \<open>The comparator\<close>

text \<open>Reading a property of a result; \<open>None\<close> is \<open>undefined\<close>.\<close>

definition get_pattern :: "analysis \<Rightarrow> string option" where
  "get_pattern a = map_option pattern (detected a)"

definition get_commonDifference :: "analysis \<Rightarrow> rat option" where
  "get_commonDifference a = Option.bind (detected a) commonDifference"

definition get_commonRatio :: "analysis \<Rightarrow> rat option" where
  "get_commonRatio a = Option.bind (detected a) commonRatio"

definition calculateSimilarity :: "analysis \<Rightarrow> analysis \<Rightarrow> nat" where
  "calculateSimilarity analysis1 analysis2 =
     (if get_pattern analysis1 \<noteq> get_pattern analysis2 then 0
      else
        let similarity = 50;
            similarity =
              (case (get_commonDifference analysis1, get_commonDifference analysis2) of
                 (Some d1, Some d2) \<Rightarrow> if d1 = d2 then similarity + 25 else similarity
               | _ \<Rightarrow> similarity);
            similarity =
              (case (get_commonRatio analysis1, get_commonRatio analysis2) of
                 (Some r1, Some r2) \<Rightarrow>
                   if \<bar>r1 - r2\<bar> < 1 / 100 then similarity + 25 else similarity
               | _ \<Rightarrow> similarity)
        in min similarity 100)"

record comparison =
  sequence1 :: analysis
  sequence2 :: analysis
  samePattern :: bool
  similarity :: nat

definition comparSequences ::
  "clock \<Rightarrow> clock \<Rightarrow> jsval \<Rightarrow> jsval \<Rightarrow> analyzer \<Rightarrow> (exn + comparison) \<times> analyzer" where
  "comparSequences clk1 clk2 seq1 seq2 this =
     (case analyze clk1 seq1 this of
        (Inl e, this1) \<Rightarrow> (Inl e, this1)
      | (Inr analysis1, this1) \<Rightarrow>
          (case analyze clk2 seq2 this1 of
             (Inl e, this2) \<Rightarrow> (Inl e, this2)
           | (Inr analysis2, this2) \<Rightarrow>
               (Inr \<lparr> sequence1 = analysis1,
                      sequence2 = analysis2,
                      samePattern = (get_pattern analysis1 = get_pattern analysis2),
                      similarity = calculateSimilarity analysis1 analysis2 \<rparr>,
                this2)))"

subsection \<open>Runs of the engine\<close>

datatype call =
    Analyze clock jsval
  | Compare clock clock jsval jsval
  | GetHistory
  | GetMetrics
  | Clear

fun exec :: "analyzer \<Rightarrow> call \<Rightarrow> analyzer" where
  "exec this (Analyze clk seq) = snd (analyze clk seq this)"
| "exec this (Compare clk1 clk2 seq1 seq2) = snd (comparSequences clk1 clk2 seq1 seq2 this)"
| "exec this GetHistory = this"
| "exec this GetMetrics = this"
| "exec this Clear = clear this"

text \<open>The analyzer after a list of calls on a new instance.\<close>

definition run :: "call list \<Rightarrow> analyzer" where
  "run calls = foldl exec new_analyzer calls"

subsection \<open>Notions used in the statements\<close>

text \<open>The result of a failed validation.\<close>

definition failure :: "string \<Rightarrow> jsval \<Rightarrow> analysis" where
  "failure msg seq =
     \<lparr> success = False, error = Some msg, sequence = seq, sequenceLength = None,
       detected = None, analysisTime = None, timestamp = None \<rparr>"

text \<open>
  A cache entry is in order when it was stored for a valid sequence, under the key of
  that sequence, and holds what the detectors find for it. The analyzer is consistent
  when all cache entries are in order and all history entries are successes.
\<close>

definition entry_ok :: "json option \<times> analysis \<Rightarrow> bool" where
  "entry_ok e =
     (validateSequence (sequence (snd e)) = Valid \<and>
      fst e = stringify (sequence (snd e)) \<and>
      success (snd e) \<and>
      (case detected (snd e) of
         None \<Rightarrow> False
       | Some d \<Rightarrow> detect (numbers (sequence (snd e))) = Inr d))"

definition consistent :: "analyzer \<Rightarrow> bool" where
  "consistent this =
     (list_all entry_ok (analysisCache this) \<and> list_all success (history this))"




section \<open>Properties\<close>

subsection \<open>Cache keys of valid sequences\<close>


lemma numbers_map_JNum [simp]: "numbers (JArr (map JNum qs)) = qs"
  by (simp add: numbers_def comp_def)

lemma items_map_JNum [simp]: "items (JArr (map JNum qs)) = map JNum qs"
  by simp



lemma stringify_nums [simp]:
  "stringify (JArr (map JNum qs)) = Some (JsonArr (map JsonNum qs))"
  by (simp add: comp_def)


subsection \<open>No exception in the polynomial detector\<close>

lemma funpow_differences_Nil [simp]: "(calculateDifferences ^^ n) [] = []"
  by (induction n) simp_all

lemma length_buildTable:
  "(calculateDifferences ^^ n) xs \<noteq> [] \<Longrightarrow>
     length (buildTable n (t @ [xs])) = length t + 1 + n"
proof (induction n arbitrary: t xs)
  case 0
  then show ?case by simp
next
  case (Suc n)
  from Suc.prems have ne: "(calculateDifferences ^^ n) (calculateDifferences xs) \<noteq> []"
    by (simp add: funpow_swap1)
  then have "calculateDifferences xs \<noteq> []" by auto
  moreover from Suc.IH [OF ne, of "t @ [xs]"]
  have "length (buildTable n ((t @ [xs]) @ [calculateDifferences xs])) = length t + 2 + n"
    by simp
  ultimately show ?case by simp
qed

lemma length_workBackUp [simp]: "length (workBackUp i t) = length t"
  by (induction i arbitrary: t) (simp_all add: Let_def)

lemma extendRow_ok:
  "level < length t \<Longrightarrow> \<exists>t'. extendRow level c t = Inr t' \<and> length t' = length t"
  by (simp add: extendRow_def)

lemma predictPolynomial_loop_ok:
  "level < length t \<Longrightarrow> \<exists>ps. predictPolynomial_loop n level c t = Inr ps"
proof (induction n arbitrary: t)
  case 0
  then show ?case by simp
next
  case (Suc n)
  from extendRow_ok [OF Suc.prems] obtain t'
    where e: "extendRow level c t = Inr t'" and l: "length t' = length t" by blast
  from l Suc.prems have "level < length (workBackUp level t')" by simp
  from Suc.IH [OF this] obtain ps
    where "predictPolynomial_loop n level c (workBackUp level t') = Inr ps" by blast
  with e show ?case by (simp add: Let_def)
qed

lemma predictPolynomial_ok:
  assumes "(calculateDifferences ^^ (level + 1)) seq \<noteq> []"
  shows "\<exists>ps. predictPolynomial seq level c count = Inr ps"
proof -
  from length_buildTable [OF assms, of "[]"]
  have "level < length (buildTable (level + 1) [seq])" by simp
  then show ?thesis
    unfolding predictPolynomial_def by (rule predictPolynomial_loop_ok)
qed

lemma detectPolynomial_loop_ok:
  "differences = (calculateDifferences ^^ level) seq \<Longrightarrow>
     \<exists>r. detectPolynomial_loop seq differences level = Inr r"
proof (induction seq differences level rule: detectPolynomial_loop.induct)
  case (1 seq differences level)
  show ?case
  proof (cases "level < maxLevels \<and> calculateDifferences differences \<noteq> []")
    case False
    then show ?thesis
      by (auto simp add: detectPolynomial_loop.simps [of seq differences level])
  next
    case True
    let ?next = "calculateDifferences differences"
    have nx: "?next = (calculateDifferences ^^ (level + 1)) seq"
      using "1.prems" by simp
    show ?thesis
    proof (cases "every_equals_first ?next")
      case True
      from nx \<open>level < maxLevels \<and> ?next \<noteq> []\<close>
      have "(calculateDifferences ^^ (level + 1)) seq \<noteq> []" by simp
      from predictPolynomial_ok [OF this] obtain ps
        where "predictPolynomial seq level (hd ?next) 5 = Inr ps" by blast
      with True \<open>level < maxLevels \<and> ?next \<noteq> []\<close> show ?thesis
        by (simp add: detectPolynomial_loop.simps [of seq differences level])
    next
      case False
      with \<open>level < maxLevels \<and> ?next \<noteq> []\<close> "1.IH" [OF _ refl _ _ nx]
      show ?thesis
        by (simp add: detectPolynomial_loop.simps [of seq differences level])
    qed
  qed
qed

lemma detectPolynomial_ok: "\<exists>r. detectPolynomial seq = Inr r"
  unfolding detectPolynomial_def by (rule detectPolynomial_loop_ok) simp

lemma detect_ok: "\<exists>d. detect seq = Inr d"
  using detectPolynomial_ok [of seq]
  by (auto simp add: detect_def split: option.splits)

text \<open>
  The rows of the table of a non-empty sequence stay non-empty, so each read of the
  last element of a row is in range.
\<close>

lemma buildTable_rows: "[] \<notin> set t \<Longrightarrow> [] \<notin> set (buildTable n t)"
  by (induction n arbitrary: t) (auto simp add: Let_def)

lemma update_rows: "[] \<notin> set t \<Longrightarrow> row \<noteq> [] \<Longrightarrow> [] \<notin> set (t[i := row])"
  using set_update_subset_insert [of t i row] by auto

lemma extendRow_rows:
  "extendRow level c t = Inr t' \<Longrightarrow> [] \<notin> set t \<Longrightarrow> [] \<notin> set t'"
  by (auto simp add: extendRow_def update_rows split: if_splits)

lemma workBackUp_rows: "[] \<notin> set t \<Longrightarrow> [] \<notin> set (workBackUp i t)"
proof (induction i arbitrary: t)
  case 0
  then show ?case by simp
next
  case (Suc i)
  from Suc.prems have "[] \<notin> set (t[i := t ! i @ [last (t ! i) + last (t ! (i + 1))]])"
    by (rule update_rows) simp
  from Suc.IH [OF this] show ?case by (simp add: Let_def)
qed

subsection \<open>The analyzer state\<close>

lemma update_absent: "map_of al k = None \<Longrightarrow> AList.update k v al = al @ [(k, v)]"
  by (induction al) (auto split: if_splits)

lemma analyze_hit:
  "map_of (analysisCache this) (stringify seq) = Some cached \<Longrightarrow>
     analyze clk seq this =
       (Inr cached,
        this \<lparr> performanceMetrics :=
                 (performanceMetrics this)
                   \<lparr> cacheHits := cacheHits (performanceMetrics this) + 1 \<rparr> \<rparr>)"
  by (simp add: analyze_def)

lemma analyze_invalid:
  "map_of (analysisCache this) (stringify seq) = None \<Longrightarrow>
   validateSequence seq = Invalid msg \<Longrightarrow>
     analyze clk seq this = (Inr (failure msg seq), this)"
  by (simp add: analyze_def failure_def)

lemma analyze_fresh:
  assumes "map_of (analysisCache this) (stringify seq) = None"
    and "validateSequence seq = Valid"
    and "detect (numbers seq) = Inr d"
  shows "\<exists>r. analyze clk seq this =
           (Inr r,
            this \<lparr> performanceMetrics :=
                     performanceMetrics (updateMetrics (endTime clk - startTime clk) this),
                   analysisCache := analysisCache this @ [(stringify seq, r)],
                   history := history this @ [r] \<rparr>)
         \<and> success r \<and> sequence r = seq \<and> detected r = Some d"
  using assms
  by (simp add: analyze_def Let_def updateMetrics_def update_absent)

lemma analyze_returns: "\<exists>r this'. analyze clk seq this = (Inr r, this')"
proof (cases "map_of (analysisCache this) (stringify seq)")
  case (Some cached)
  then show ?thesis by (simp add: analyze_hit)
next
  case None
  show ?thesis
  proof (cases "validateSequence seq")
    case Valid
    from detect_ok obtain d where "detect (numbers seq) = Inr d" by blast
    from analyze_fresh [OF None Valid this] show ?thesis by blast
  next
    case (Invalid msg)
    with None show ?thesis by (simp add: analyze_invalid)
  qed
qed





lemma consistent_analyze:
  assumes "consistent this"
  shows "consistent (snd (analyze clk seq this))"
proof (cases "map_of (analysisCache this) (stringify seq)")
  case (Some cached)
  with assms show ?thesis by (simp add: analyze_hit consistent_def)
next
  case None
  show ?thesis
  proof (cases "validateSequence seq")
    case Valid
    from detect_ok obtain d where d: "detect (numbers seq) = Inr d" by blast
    from analyze_fresh [OF None Valid d, of clk] obtain r
      where "analyze clk seq this =
           (Inr r,
            this \<lparr> performanceMetrics :=
                     performanceMetrics (updateMetrics (endTime clk - startTime clk) this),
                   analysisCache := analysisCache this @ [(stringify seq, r)],
                   history := history this @ [r] \<rparr>)"
        and "success r" "sequence r = seq" "detected r = Some d" by blast
    with assms Valid d show ?thesis
      by (simp add: consistent_def entry_ok_def)
  next
    case (Invalid msg)
    with None assms show ?thesis by (simp add: analyze_invalid)
  qed
qed

lemma consistent_comparSequences:
  assumes "consistent this"
  shows "consistent (snd (comparSequences clk1 clk2 seq1 seq2 this))"
proof -
  obtain a1 this1 where 1: "analyze clk1 seq1 this = (Inr a1, this1)"
    using analyze_returns by blast
  obtain a2 this2 where 2: "analyze clk2 seq2 this1 = (Inr a2, this2)"
    using analyze_returns by blast
  from consistent_analyze [OF assms, of clk1 seq1] 1 have "consistent this1" by simp
  from consistent_analyze [OF this, of clk2 seq2] 2 have "consistent this2" by simp
  with 1 2 show ?thesis by (simp add: comparSequences_def)
qed

lemma consistent_exec: "consistent this \<Longrightarrow> consistent (exec this c)"
  by (cases c) (simp_all add: consistent_analyze consistent_comparSequences,
      simp add: consistent_def clear_def)

lemma consistent_foldl: "consistent this \<Longrightarrow> consistent (foldl exec this calls)"
  by (induction calls arbitrary: this) (simp_all add: consistent_exec)

lemma consistent_run: "consistent (run calls)"
  unfolding run_def by (rule consistent_foldl) (simp add: consistent_def new_analyzer_def)

subsection \<open>Differences and ratios by index\<close>













subsection \<open>Short sequences always have constant differences at some level\<close>







subsection \<open>Similarity\<close>



lemma get_pattern_cong: "detected a = detected a' \<Longrightarrow> get_pattern a = get_pattern a'"
  by (simp add: get_pattern_def)

subsection \<open>The effect of one analysis on later ones\<close>




lemma comparSequences_unfold:
  assumes "analyze c1 a this = (Inr ra, this1)" and "analyze c2 b this1 = (Inr rb, this2)"
  shows "comparSequences c1 c2 a b this =
           (Inr \<lparr> sequence1 = ra, sequence2 = rb,
                  samePattern = (get_pattern ra = get_pattern rb),
                  similarity = calculateSimilarity ra rb \<rparr>, this2)"
  using assms by (simp add: comparSequences_def)

subsection \<open>Comparison\<close>


subsection \<open>Polynomial prediction\<close>

lemma detect_squares:
  "detect [1, 4, 9, 16, 25] =
     Inr \<lparr> pattern = ''polynomial'', confidence = 95, commonDifference = None,
           commonRatio = None, degree = Some 2, constantDifference = Some 2,
           nextNumbers = [Some 34, Some 43, Some 52, Some 61, Some 70],
           formula = PolynomialFormula 2,
           explanation = Some (PolynomialExplanation 2) \<rparr>"
  by code_simp

lemma valid_squares: "validateSequence (JArr [JNum 1, JNum 4, JNum 9, JNum 16, JNum 25]) = Valid"
  by (simp add: validateSequence_def)

text \<open>
  Claim C1. For a sequence whose second differences are constant, such as
  \<open>[1, 4, 9, 16, 25]\<close>, the claim expects the pattern \<open>polynomial\<close>, degree 2 and the
  Newton extrapolation, whose first value is 36. The analyzer does report the pattern
  and the degree, but \<open>predictPolynomial\<close> extends row \<open>level\<close> of the table (the first
  differences \<open>[3, 5, 7, 9]\<close>) instead of the constant row below it, so the predictions
  are \<open>34, 43, 52, 61, 70\<close>: the last element plus multiples of the last first
  difference.
\<close>

theorem polynomial_prediction_of_squares:
  "\<exists>r this'. analyze clk (JArr [JNum 1, JNum 4, JNum 9, JNum 16, JNum 25]) new_analyzer
               = (Inr r, this') \<and>
     get_pattern r = Some ''polynomial'' \<and>
     Option.bind (detected r) degree = Some 2 \<and>
     map_option nextNumbers (detected r) = Some [Some 34, Some 43, Some 52, Some 61, Some 70]"
proof -
  have n: "numbers (JArr [JNum 1, JNum 4, JNum 9, JNum 16, JNum 25]) = [1, 4, 9, 16, 25]"
    by (simp add: numbers_def)
  have "map_of (analysisCache new_analyzer)
          (stringify (JArr [JNum 1, JNum 4, JNum 9, JNum 16, JNum 25])) = None"
    by (simp add: new_analyzer_def)
  from analyze_fresh [OF this valid_squares, of _ clk] detect_squares n
  show ?thesis by (auto simp add: get_pattern_def)
qed

subsection \<open>Metrics\<close>

lemma detect_3_6_9_12:
  "detect [3, 6, 9, 12] =
     Inr \<lparr> pattern = ''arithmetic'', confidence = 100, commonDifference = Some 3,
           commonRatio = None, degree = None, constantDifference = None,
           nextNumbers = [Some 15, Some 18, Some 21, Some 24, Some 27],
           formula = ArithmeticFormula 3,
           explanation = Some ArithmeticExplanation \<rparr>"
  by code_simp

text \<open>
  Claim C2. Analysing the same sequence twice on a new analyzer: the second call is
  served from the cache, returns the stored result and leaves the history as it was; it
  increments \<open>cacheHits\<close>, but \<open>totalAnalyses\<close> stays at 1, since the cache branch
  returns before \<open>updateMetrics\<close> is reached.
\<close>

theorem cache_hit_leaves_totalAnalyses:
  "fst (analyze clk2 (JArr [JNum 3, JNum 6, JNum 9, JNum 12])
          (run [Analyze clk1 (JArr [JNum 3, JNum 6, JNum 9, JNum 12])]))
     = fst (analyze clk1 (JArr [JNum 3, JNum 6, JNum 9, JNum 12]) new_analyzer) \<and>
   history (run [Analyze clk1 (JArr [JNum 3, JNum 6, JNum 9, JNum 12]),
                 Analyze clk2 (JArr [JNum 3, JNum 6, JNum 9, JNum 12])])
     = history (run [Analyze clk1 (JArr [JNum 3, JNum 6, JNum 9, JNum 12])]) \<and>
   performanceMetrics (run [Analyze clk1 (JArr [JNum 3, JNum 6, JNum 9, JNum 12])])
     = \<lparr> totalAnalyses = 1, averageAnalysisTime = endTime clk1 - startTime clk1, cacheHits = 0 \<rparr> \<and>
   performanceMetrics
     (run [Analyze clk1 (JArr [JNum 3, JNum 6, JNum 9, JNum 12]),
           Analyze clk2 (JArr [JNum 3, JNum 6, JNum 9, JNum 12])])
     = \<lparr> totalAnalyses = 1, averageAnalysisTime = endTime clk1 - startTime clk1, cacheHits = 1 \<rparr>"
proof -
  let ?s = "JArr [JNum 3, JNum 6, JNum 9, JNum 12]"
  have v: "validateSequence ?s = Valid" by (simp add: validateSequence_def)
  have n: "detect (numbers ?s) = detect [3, 6, 9, 12]" by (simp add: numbers_def)
  have m: "map_of (analysisCache new_analyzer) (stringify ?s) = None"
    by (simp add: new_analyzer_def)
  from analyze_fresh [OF m v n [unfolded detect_3_6_9_12], of clk1] obtain r where
    1: "analyze clk1 ?s new_analyzer =
           (Inr r,
            new_analyzer \<lparr> performanceMetrics :=
                     performanceMetrics (updateMetrics (endTime clk1 - startTime clk1) new_analyzer),
                   analysisCache := analysisCache new_analyzer @ [(stringify ?s, r)],
                   history := history new_analyzer @ [r] \<rparr>)"
    by blast
  let ?this1 = "snd (analyze clk1 ?s new_analyzer)"
  have r1: "run [Analyze clk1 ?s] = ?this1" by (simp add: run_def)
  have r2: "run [Analyze clk1 ?s, Analyze clk2 ?s] = snd (analyze clk2 ?s ?this1)"
    by (simp add: run_def)
  from 1 have h: "map_of (analysisCache ?this1) (stringify ?s) = Some r"
    by (simp add: new_analyzer_def)
  from 1 have p: "performanceMetrics ?this1 =
      \<lparr> totalAnalyses = 1, averageAnalysisTime = endTime clk1 - startTime clk1, cacheHits = 0 \<rparr>"
    by (simp add: new_analyzer_def updateMetrics_def)
  from 1 have f: "fst (analyze clk1 ?s new_analyzer) = Inr r" by simp
  show ?thesis
    unfolding r1 r2 analyze_hit [OF h] f by (simp add: p)
qed




subsection \<open>Arithmetic progressions are recognised\<close>



subsection \<open>Geometric progressions\<close>




subsection \<open>Validation failures\<close>









subsection \<open>History\<close>

lemma analyze_history_same:
  assumes "map_of (analysisCache this) (stringify seq) \<noteq> None \<or> validateSequence seq \<noteq> Valid"
  shows "history (snd (analyze clk seq this)) = history this"
proof (cases "map_of (analysisCache this) (stringify seq)")
  case (Some cached)
  then show ?thesis by (simp add: analyze_hit)
next
  case None
  with assms obtain msg where "validateSequence seq = Invalid msg"
    by (cases "validateSequence seq") auto
  with None show ?thesis by (simp add: analyze_invalid)
qed

lemma analyze_history_append:
  assumes "map_of (analysisCache this) (stringify seq) = None" and "validateSequence seq = Valid"
  shows "\<exists>r. fst (analyze clk seq this) = Inr r \<and> success r \<and>
           history (snd (analyze clk seq this)) = history this @ [r]"
proof -
  from detect_ok obtain d where d: "detect (numbers seq) = Inr d" by blast
  from analyze_fresh [OF assms d, of clk] obtain r where
    "analyze clk seq this =
           (Inr r,
            this \<lparr> performanceMetrics :=
                     performanceMetrics (updateMetrics (endTime clk - startTime clk) this),
                   analysisCache := analysisCache this @ [(stringify seq, r)],
                   history := history this @ [r] \<rparr>)"
    and "success r" by blast
  then show ?thesis by simp
qed

lemma analyze_history_prefix:
  "\<exists>ys. history (snd (analyze clk seq this)) = history this @ ys"
proof (cases "map_of (analysisCache this) (stringify seq) = None \<and> validateSequence seq = Valid")
  case True
  then have "map_of (analysisCache this) (stringify seq) = None" and "validateSequence seq = Valid"
    by simp_all
  from analyze_history_append [OF this, of clk] obtain r
    where "history (snd (analyze clk seq this)) = history this @ [r]" by blast
  then show ?thesis by (intro exI [of _ "[r]"])
next
  case False
  then have "map_of (analysisCache this) (stringify seq) \<noteq> None \<or> validateSequence seq \<noteq> Valid"
    by simp
  then have "history (snd (analyze clk seq this)) = history this"
    by (rule analyze_history_same)
  then show ?thesis by simp
qed

lemma comparSequences_history_prefix:
  "\<exists>ys. history (snd (comparSequences clk1 clk2 seq1 seq2 this)) = history this @ ys"
proof -
  obtain a1 this1 where 1: "analyze clk1 seq1 this = (Inr a1, this1)"
    using analyze_returns by blast
  obtain a2 this2 where 2: "analyze clk2 seq2 this1 = (Inr a2, this2)"
    using analyze_returns by blast
  from analyze_history_prefix [of clk1 seq1 this] 1 obtain ys
    where "history this1 = history this @ ys" by auto
  moreover from analyze_history_prefix [of clk2 seq2 this1] 2 obtain zs
    where "history this2 = history this1 @ zs" by auto
  ultimately have "history this2 = history this @ (ys @ zs)" by simp
  then show ?thesis
    unfolding comparSequences_unfold [OF 1 2] by (intro exI [of _ "ys @ zs"]) simp
qed

lemma exec_history_prefix:
  "c \<noteq> Clear \<Longrightarrow> \<exists>ys. history (exec this c) = history this @ ys"
  by (cases c) (simp_all add: analyze_history_prefix comparSequences_history_prefix)

text \<open>
  Claim C8. After any list of calls on a new analyzer every history entry is a
  success. Every call other than \<open>clear\<close> keeps the history as a prefix of the new
  history, so entries stay in call order and are not changed; \<open>clear\<close> empties it. A
  call of \<open>analyze\<close> served from the cache or failing validation leaves the history
  as it is; any other call of \<open>analyze\<close> appends the result it returns. \<open>getHistory\<close>
  returns the entries.
\<close>

theorem history_append_only:
  "list_all success (history (run calls)) \<and>
   (c \<noteq> Clear \<longrightarrow> (\<exists>ys. history (exec (run calls) c) = history (run calls) @ ys)) \<and>
   history (exec (run calls) Clear) = [] \<and>
   (map_of (analysisCache (run calls)) (stringify seq) \<noteq> None \<or> validateSequence seq \<noteq> Valid \<longrightarrow>
      history (exec (run calls) (Analyze clk seq)) = history (run calls)) \<and>
   (map_of (analysisCache (run calls)) (stringify seq') = None \<and> validateSequence seq' = Valid \<longrightarrow>
      (\<exists>r. fst (analyze clk' seq' (run calls)) = Inr r \<and> success r \<and>
           history (exec (run calls) (Analyze clk' seq')) = history (run calls) @ [r])) \<and>
   getHistory (run calls) = history (run calls)"
proof -
  have "list_all success (history (run calls))"
    using consistent_run [of calls] by (simp add: consistent_def)
  moreover have "history (exec (run calls) Clear) = []"
    by (simp add: clear_def)
  ultimately show ?thesis
    using exec_history_prefix [of c "run calls"]
      analyze_history_same [of "run calls" seq clk]
      analyze_history_append [of "run calls" seq' clk']
    by (simp add: getHistory_def)
qed

theorem history_append_only_witness:
  "list_all success
     (history (run [Analyze \<lparr> startTime = 0, endTime = 1, isoString = '''' \<rparr>
                      (JArr [JNum 3, JNum 6, JNum 9, JNum 12])])) \<and>
   length (history (run [Analyze \<lparr> startTime = 0, endTime = 1, isoString = '''' \<rparr>
                      (JArr [JNum 3, JNum 6, JNum 9, JNum 12])])) = 1 \<and>
   (\<exists>ys. history (exec (run [Analyze \<lparr> startTime = 0, endTime = 1, isoString = '''' \<rparr>
                                 (JArr [JNum 3, JNum 6, JNum 9, JNum 12])])
                    (Compare \<lparr> startTime = 2, endTime = 3, isoString = '''' \<rparr>
                       \<lparr> startTime = 4, endTime = 5, isoString = '''' \<rparr>
                       (JArr [JNum 2, JNum 4, JNum 8, JNum 16]) (JArr [JNum 5])))
         = history (run [Analyze \<lparr> startTime = 0, endTime = 1, isoString = '''' \<rparr>
                           (JArr [JNum 3, JNum 6, JNum 9, JNum 12])]) @ ys) \<and>
   history (exec (run [Analyze \<lparr> startTime = 0, endTime = 1, isoString = '''' \<rparr>
                         (JArr [JNum 3, JNum 6, JNum 9, JNum 12])]) Clear) = [] \<and>
   validateSequence (JArr [JNum 5]) \<noteq> Valid \<and>
   history (exec (run [Analyze \<lparr> startTime = 0, endTime = 1, isoString = '''' \<rparr>
                         (JArr [JNum 3, JNum 6, JNum 9, JNum 12])])
              (Analyze \<lparr> startTime = 2, endTime = 3, isoString = '''' \<rparr> (JArr [JNum 5])))
     = history (run [Analyze \<lparr> startTime = 0, endTime = 1, isoString = '''' \<rparr>
                       (JArr [JNum 3, JNum 6, JNum 9, JNum 12])]) \<and>
   map_of (analysisCache (run [Analyze \<lparr> startTime = 0, endTime = 1, isoString = '''' \<rparr>
                                 (JArr [JNum 3, JNum 6, JNum 9, JNum 12])]))
     (stringify (JArr [JNum 2, JNum 4, JNum 8, JNum 16])) = None \<and>
   validateSequence (JArr [JNum 2, JNum 4, JNum 8, JNum 16]) = Valid \<and>
   (\<exists>r. fst (analyze \<lparr> startTime = 2, endTime = 3, isoString = '''' \<rparr>
               (JArr [JNum 2, JNum 4, JNum 8, JNum 16])
               (run [Analyze \<lparr> startTime = 0, endTime = 1, isoString = '''' \<rparr>
                       (JArr [JNum 3, JNum 6, JNum 9, JNum 12])])) = Inr r \<and>
        success r \<and>
        history (exec (run [Analyze \<lparr> startTime = 0, endTime = 1, isoString = '''' \<rparr>
                              (JArr [JNum 3, JNum 6, JNum 9, JNum 12])])
                   (Analyze \<lparr> startTime = 2, endTime = 3, isoString = '''' \<rparr>
                      (JArr [JNum 2, JNum 4, JNum 8, JNum 16])))
          = history (run [Analyze \<lparr> startTime = 0, endTime = 1, isoString = '''' \<rparr>
                            (JArr [JNum 3, JNum 6, JNum 9, JNum 12])]) @ [r])"
proof -
  let ?calls = "[Analyze \<lparr> startTime = 0, endTime = 1, isoString = '''' \<rparr>
                   (JArr [JNum 3, JNum 6, JNum 9, JNum 12])]"
  let ?c = "Compare \<lparr> startTime = 2, endTime = 3, isoString = '''' \<rparr>
              \<lparr> startTime = 4, endTime = 5, isoString = '''' \<rparr>
              (JArr [JNum 2, JNum 4, JNum 8, JNum 16]) (JArr [JNum 5])"
  have l: "length (history (run ?calls)) = 1" by code_simp
  have c: "?c \<noteq> Clear" by simp
  have i: "validateSequence (JArr [JNum 5]) \<noteq> Valid" by (simp add: validateSequence_def)
  have m: "map_of (analysisCache (run ?calls)) (stringify (JArr [JNum 2, JNum 4, JNum 8, JNum 16])) = None"
    by code_simp
  have v: "validateSequence (JArr [JNum 2, JNum 4, JNum 8, JNum 16]) = Valid"
    by (simp add: validateSequence_def)
  from history_append_only [of ?calls ?c "JArr [JNum 5]"
      "\<lparr> startTime = 2, endTime = 3, isoString = '''' \<rparr>"
      "JArr [JNum 2, JNum 4, JNum 8, JNum 16]"
      "\<lparr> startTime = 2, endTime = 3, isoString = '''' \<rparr>"] l c i m v
  show ?thesis by blast
qed

end
